theory Spec2Isabelle
  imports Main
begin

section \<open>Data model\<close>

text \<open>
  \<^verbatim>\<open>schemas.py\<close>: the request and response shapes. \<^verbatim>\<open>UserCreate\<close> is the body
  of both \<^verbatim>\<open>/register\<close> and \<^verbatim>\<open>/login\<close>; \<^verbatim>\<open>UserResponse\<close> is the
  \<^verbatim>\<open>response_model\<close> of \<^verbatim>\<open>/register\<close> and \<^verbatim>\<open>/users/me\<close>; \<^verbatim>\<open>Token\<close> is the
  \<^verbatim>\<open>response_model\<close> of \<^verbatim>\<open>/login\<close>. The token itself is opaque to the flows, so its
  type is a parameter.
\<close>

record UserCreate =
  uc_email :: string
  uc_username :: string
  uc_password :: string

record UserResponse =
  r_email :: string
  r_username :: string
  r_id :: int
  r_is_active :: bool

record 'tok Token =
  access_token :: 'tok
  token_type :: string

text \<open>
  Modelled from the spec: \<^verbatim>\<open>models.py\<close>, which declares \<^verbatim>\<open>UserModel\<close>, is missing
  from the sources. The User of section 3 has a numeric id assigned by the store, an
  email, a username, a password hash and an active flag; the column names are the keys
  of \<^verbatim>\<open>user_data\<close> in \<^verbatim>\<open>register_user\<close> and the attributes that \<^verbatim>\<open>UserResponse\<close>
  (\<^verbatim>\<open>from_attributes = True\<close>) and \<^verbatim>\<open>login\<close> read. A row that is not yet inserted
  has no id: it is a \<open>user_data\<close>, the dict given to \<^verbatim>\<open>UserModel(**user_data)\<close>.
\<close>

record user_data =
  d_email :: string
  d_username :: string
  d_hashed_password :: string
  d_is_active :: bool

record UserModel =
  ident :: int
  email :: string
  username :: string
  hashed_password :: string
  is_active :: bool

text \<open>\<^verbatim>\<open>config.py\<close>: the settings and their defaults.\<close>

record Settings =
  SECRET_KEY :: string
  ALGORITHM :: string
  ACCESS_TOKEN_EXPIRE_MINUTES :: int
  DATABASE_URL :: string

definition settings :: Settings where
  "settings =
     \<lparr>SECRET_KEY = ''90de4293c01e469715d923460159ddb92c2f17730a4e373104566b3aab828e235c713fd6f0a9e2c6205c85f782c70e288d5443d6209170be87d4886ae6f9b4cb33cac5cd9186860c9cf1353a77d8131676c5877f0ee6d8c363774f985cc8823f3c193d769682e6e04e1a92c168d33c6bd82c037e9f246e1a6fa413d7abc2f04d57dff20b347891badb37b28f9ea4a8a10d1bebc43cd05e0fea689264681adfba960f22d88d03e25f639d66ffdaa9de7dd76fef07639dde8dc52fffb7043241ccb8ccf42911f52e76dfbcdd04b41042f04f5fbefdd4eea107bd72b09d5b44ce175b79ff9b7639fb058d95fd9e59d188d0e2c3065d487632d6bfe1fa3248519e34'',
      ALGORITHM = ''HS256'',
      ACCESS_TOKEN_EXPIRE_MINUTES = 30,
      DATABASE_URL = ''sqlite:///./database/sql_app.db''\<rparr>"

text \<open>\<^verbatim>\<open>timedelta(minutes=n)\<close>, as a number of seconds.\<close>

definition timedelta_minutes :: "int \<Rightarrow> int" where
  "timedelta_minutes n = 60 * n"

section \<open>Exceptions and log lines\<close>

text \<open>
  \<^verbatim>\<open>HTTPException(status_code, detail, headers)\<close> is the only exception the sources
  construct. \<open>Raised\<close> stands for any other exception that a collaborator outside the
  sources raises, named by its class.
\<close>

datatype exc =
  HTTPException (status_code: int) (detail: string) (headers: "(string \<times> string) list")
| Raised string

text \<open>
  \<^verbatim>\<open>logger.py\<close> sends every line to the console and to a file under \<^verbatim>\<open>logs/\<close>.
  \<open>LogError p ex\<close> is the line \<^verbatim>\<open>f"{p}{str(ex)}"\<close>.
\<close>

datatype log_entry = LogInfo string | LogWarning string | LogError string exc

section \<open>Statements and the errors of the store\<close>

text \<open>
  The statements the sources send to the database: the two lookups of \<^verbatim>\<open>crud.py\<close>,
  the read-back of \<^verbatim>\<open>db.refresh\<close> and the insert that \<^verbatim>\<open>db.commit\<close> flushes. Each
  carries the values it binds.
\<close>

datatype statement =
  SelectUserByEmail "string option"
| SelectUserByUsername string
| SelectUserById int
| InsertUsers "user_data list"

fun selects :: "statement \<Rightarrow> UserModel \<Rightarrow> bool" where
  "selects (SelectUserByEmail e) u = (Some (email u) = e)"
| "selects (SelectUserByUsername n) u = (username u = n)"
| "selects (SelectUserById i) u = (ident u = i)"
| "selects (InsertUsers ds) u = False"

text \<open>Python's \<^verbatim>\<open>str\<close> of an integer.\<close>

definition digit :: "nat \<Rightarrow> char" where
  "digit n = char_of (48 + n)"

function show_nat :: "nat \<Rightarrow> string" where
  "show_nat n = (if n < 10 then [digit n] else show_nat (n div 10) @ [digit (n mod 10)])"
  by pat_completeness auto
termination
  by (relation "measure (\<lambda>n. n)") auto

declare show_nat.simps [simp del]

definition show_int :: "int \<Rightarrow> string" where
  "show_int i = (if i < 0 then CHR ''-'' # show_nat (nat (- i)) else show_nat (nat i))"

fun parameters :: "statement \<Rightarrow> string list" where
  "parameters (SelectUserByEmail e) = (case e of None \<Rightarrow> [] | Some s \<Rightarrow> [s])"
| "parameters (SelectUserByUsername n) = [n]"
| "parameters (SelectUserById i) = [show_int i]"
| "parameters (InsertUsers ds) =
     concat (map (\<lambda>d. [d_email d, d_username d, d_hashed_password d,
                        if d_is_active d then ''1'' else ''0'']) ds)"

fun comma_join :: "string list \<Rightarrow> string" where
  "comma_join [] = []"
| "comma_join [x] = x"
| "comma_join (x # y # ys) = x @ '', '' @ comma_join (y # ys)"

text \<open>
  The subclasses of \<^verbatim>\<open>SQLAlchemyError\<close> that matter here; \<^verbatim>\<open>except SQLAlchemyError\<close>
  catches them all. An error of the database driver is wrapped together with the
  statement that was running. \<^verbatim>\<open>str(e)\<close> of such an error is the driver's message
  followed by the statement and the values it binds: \<^verbatim>\<open>create_engine(db_url)\<close> in
  \<^verbatim>\<open>database.py\<close> leaves \<^verbatim>\<open>hide_parameters\<close> at its default. \<open>str_sql\<close> keeps the
  message and the line of bound values, and leaves out the SQL text between them and
  the link after them.
\<close>

datatype sql_error =
  IntegrityError string statement
| OperationalError string statement
| InvalidRequestError string

definition statement_text :: "string \<Rightarrow> statement \<Rightarrow> string" where
  "statement_text m st = m @ [CHR 0x0A] @ ''[parameters: ('' @ comma_join (parameters st) @ '')]''"

fun str_sql :: "sql_error \<Rightarrow> string" where
  "str_sql (IntegrityError m st) = statement_text m st"
| "str_sql (OperationalError m st) = statement_text m st"
| "str_sql (InvalidRequestError m) = m"

text \<open>What the database driver raises, before SQLAlchemy wraps it.\<close>

datatype driver_error = IntegrityFault string | OperationalFault string

fun statement_error :: "driver_error \<Rightarrow> statement \<Rightarrow> sql_error" where
  "statement_error (IntegrityFault m) st = IntegrityError m st"
| "statement_error (OperationalFault m) st = OperationalError m st"

section \<open>The database session\<close>

text \<open>
  The SQLAlchemy session the flows are written for (\<^verbatim>\<open>db: Session\<close>), reduced to the
  calls the sources make: \<^verbatim>\<open>query(...).filter(...).first()\<close>, \<^verbatim>\<open>add\<close>, \<^verbatim>\<open>commit\<close>,
  \<^verbatim>\<open>refresh\<close>, \<^verbatim>\<open>rollback\<close> and \<^verbatim>\<open>close\<close>. \<open>table\<close> is the committed content of the
  users table in insertion order and \<open>staged\<close> the rows added by the open transaction.
  Each of \<open>first\<close>, \<open>commit\<close> and \<open>refresh\<close> is one round trip to the database
  server; \<open>faults n\<close> says whether the driver raises in the \<open>n\<close>-th round trip, and
  \<open>trips\<close> counts the round trips made so far. The error a failing round trip raises
  carries the statement that was sent.
\<close>

record session =
  table :: "UserModel list"
  staged :: "user_data list"
  faults :: "nat \<Rightarrow> driver_error option"
  trips :: nat
  closed :: bool

definition round_trip :: "statement \<Rightarrow> session \<Rightarrow> sql_error option \<times> session" where
  "round_trip st db =
     (case faults db (trips db) of
        None \<Rightarrow> (None, db\<lparr>trips := Suc (trips db)\<rparr>)
      | Some f \<Rightarrow> (Some (statement_error f st), db\<lparr>trips := Suc (trips db)\<rparr>))"

definition query_first :: "statement \<Rightarrow> session \<Rightarrow> (sql_error + UserModel option) \<times> session" where
  "query_first st db =
     (case round_trip st db of
        (Some e, db') \<Rightarrow> (Inl e, db')
      | (None, db') \<Rightarrow> (Inr (find (selects st) (table db')), db'))"

definition add :: "user_data \<Rightarrow> session \<Rightarrow> session" where
  "add d db = db\<lparr>staged := staged db @ [d]\<rparr>"

text \<open>\<^verbatim>\<open>UserModel(**user_data)\<close>, once the store has given it the id \<open>n\<close>.\<close>

definition UserModel_row :: "int \<Rightarrow> user_data \<Rightarrow> UserModel" where
  "UserModel_row n d =
     \<lparr>ident = n, email = d_email d, username = d_username d,
      hashed_password = d_hashed_password d, is_active = d_is_active d\<rparr>"

fun insert_rows :: "int \<Rightarrow> user_data list \<Rightarrow> UserModel list" where
  "insert_rows n [] = []"
| "insert_rows n (d # ds) = UserModel_row n d # insert_rows (n + 1) ds"

text \<open>
  The store assigns the ids. SQLite, the default \<^verbatim>\<open>DATABASE_URL\<close>, gives a new row one
  more than the largest id of the table, and 1 in an empty table.
\<close>

definition next_id :: "UserModel list \<Rightarrow> int" where
  "next_id rows = fold (\<lambda>u m. max m (ident u + 1)) rows 1"

text \<open>
  \<open>commit\<close> either inserts every staged row or none: the store's transaction decides
  it. On success it gives back the ids it assigned.
\<close>

definition commit :: "session \<Rightarrow> (sql_error + int list) \<times> session" where
  "commit db =
     (case round_trip (InsertUsers (staged db)) db of
        (Some e, db') \<Rightarrow> (Inl e, db')
      | (None, db') \<Rightarrow>
          (let new = insert_rows (next_id (table db')) (staged db')
           in (Inr (map ident new), db'\<lparr>table := table db' @ new, staged := []\<rparr>)))"

text \<open>
  \<open>refresh\<close> reads the row of an object back by its id. An object that was never
  inserted has no id, and a row that is gone cannot be read: SQLAlchemy raises
  \<^verbatim>\<open>InvalidRequestError\<close> for both.
\<close>

definition refresh :: "int option \<Rightarrow> session \<Rightarrow> (sql_error + UserModel) \<times> session" where
  "refresh obj db =
     (case obj of
        None \<Rightarrow> (Inl (InvalidRequestError ''Instance is not persistent within this Session''), db)
      | Some i \<Rightarrow>
          (case query_first (SelectUserById i) db of
             (Inl e, db') \<Rightarrow> (Inl e, db')
           | (Inr None, db') \<Rightarrow> (Inl (InvalidRequestError ''Could not refresh instance''), db')
           | (Inr (Some u), db') \<Rightarrow> (Inr u, db')))"

definition rollback :: "session \<Rightarrow> session" where
  "rollback db = db\<lparr>staged := []\<rparr>"

definition close :: "session \<Rightarrow> session" where
  "close db = db\<lparr>staged := [], closed := True\<rparr>"

definition SessionLocal :: "session \<Rightarrow> session" where
  "SessionLocal db = db\<lparr>staged := [], closed := False\<rparr>"

text \<open>
  \<^verbatim>\<open>DatabaseManager.get_db\<close> (\<^verbatim>\<open>database.py\<close>) is a generator wrapped by
  \<^verbatim>\<open>@contextmanager\<close>. \<open>get_db\<close> is what a \<^verbatim>\<open>with db_manager.get_db() as db\<close> block
  around \<open>body\<close> does: open a session, hand it to the body, and close it in the
  \<^verbatim>\<open>finally\<close> clause whatever the body does. An exception of the body is the \<open>Inl\<close>
  result it returns; the log lines are the body's. No \<^verbatim>\<open>with\<close> block is in the
  sources: \<^verbatim>\<open>main.py\<close> hands the wrapped function to \<^verbatim>\<open>Depends\<close>.
\<close>

definition get_db ::
  "(session \<Rightarrow> 'r \<times> session \<times> log_entry list) \<Rightarrow> session \<Rightarrow> 'r \<times> session \<times> log_entry list" where
  "get_db body store =
     (let db = SessionLocal store
      in case body db of (r, db', lg) \<Rightarrow> (r, close db', lg))"

section \<open>\<^verbatim>\<open>crud.py\<close>\<close>

text \<open>
  The email looked up is a \<^verbatim>\<open>str\<close> in \<^verbatim>\<open>register_user\<close> and \<^verbatim>\<open>login\<close>, and the
  result of \<^verbatim>\<open>payload.get("sub")\<close> in \<^verbatim>\<open>get_current_user\<close>, which is \<^verbatim>\<open>None\<close>
  when the key is absent; \<^verbatim>\<open>None\<close> equals no stored email.
\<close>

definition get_user_by_email :: "session \<Rightarrow> string option \<Rightarrow> (exc + UserModel option) \<times> session" where
  "get_user_by_email db e =
     (case query_first (SelectUserByEmail e) db of
        (Inr r, db') \<Rightarrow> (Inr r, db')
      | (Inl err, db') \<Rightarrow>
          (Inl (HTTPException 500 (''Error al consultar la base de datos: '' @ str_sql err) []), db'))"

definition get_user_by_username :: "session \<Rightarrow> string \<Rightarrow> (exc + UserModel option) \<times> session" where
  "get_user_by_username db n =
     (case query_first (SelectUserByUsername n) db of
        (Inr r, db') \<Rightarrow> (Inr r, db')
      | (Inl err, db') \<Rightarrow>
          (Inl (HTTPException 500 (''Error al consultar la base de datos: '' @ str_sql err) []), db'))"

text \<open>
  \<^verbatim>\<open>create_user\<close>: \<^verbatim>\<open>add\<close>, \<^verbatim>\<open>commit\<close> and \<^verbatim>\<open>refresh\<close> are all inside the
  \<^verbatim>\<open>try\<close>; whichever raises, the handler rolls back and raises the 500.
\<close>

definition create_failed :: "sql_error \<Rightarrow> session \<Rightarrow> (exc + UserModel) \<times> session" where
  "create_failed err db =
     (Inl (HTTPException 500 (''Error al crear el usuario: '' @ str_sql err) []), rollback db)"

definition create_user :: "session \<Rightarrow> user_data \<Rightarrow> (exc + UserModel) \<times> session" where
  "create_user db d =
     (case commit (add d db) of
        (Inl err, db1) \<Rightarrow> create_failed err db1
      | (Inr ids, db1) \<Rightarrow>
          (case refresh (if ids = [] then None else Some (last ids)) db1 of
             (Inl err, db2) \<Rightarrow> create_failed err db2
           | (Inr u, db2) \<Rightarrow> (Inr u, db2)))"

section \<open>\<^verbatim>\<open>main.py\<close>: the three flows\<close>

text \<open>
  \<^verbatim>\<open>security.py\<close> is not part of the sources. The flows below take its four functions
  as parameters: \<open>get_password_hash\<close>, \<open>verify_password\<close>, \<open>create_access_token\<close>
  (with the clock it reads) and \<open>decode_token\<close>. The payload \<open>decode_token\<close> returns
  is the claim set; the flows read only its key \<^verbatim>\<open>sub\<close>.
\<close>

record claims =
  sub :: "string option"
  iat :: int
  exp :: int

text \<open>
  Every flow has the shape
  \<^verbatim>\<open>try: ... except Exception as ex: logger.error(f"...{str(ex)}"); raise\<close>:
  whatever is raised inside is logged and raised again unchanged.
\<close>

definition except_log_raise ::
  "string \<Rightarrow> (exc + 'a) \<times> session \<times> log_entry list \<Rightarrow> (exc + 'a) \<times> session \<times> log_entry list" where
  "except_log_raise prefix out =
     (case out of
        (Inl ex, db, lg) \<Rightarrow> (Inl ex, db, lg @ [LogError prefix ex])
      | (Inr v, db, lg) \<Rightarrow> (Inr v, db, lg))"

definition get_current_user ::
  "('tok \<Rightarrow> exc + claims) \<Rightarrow> 'tok \<Rightarrow> session \<Rightarrow> (exc + UserModel) \<times> session \<times> log_entry list" where
  "get_current_user decode_token token db =
     except_log_raise (''Error en autenticaci'' @ [CHR 0xF3] @ ''n: '')
       (case decode_token token of
          Inl ex \<Rightarrow> (Inl ex, db, [])
        | Inr payload \<Rightarrow>
            (case get_user_by_email db (sub payload) of
               (Inl ex, db1) \<Rightarrow> (Inl ex, db1, [])
             | (Inr None, db1) \<Rightarrow> (Inl (HTTPException 401 ''Usuario no encontrado'' []), db1, [])
             | (Inr (Some user), db1) \<Rightarrow> (Inr user, db1, [])))"

definition register_user ::
  "(string \<Rightarrow> string) \<Rightarrow> UserCreate \<Rightarrow> session \<Rightarrow> (exc + UserModel) \<times> session \<times> log_entry list" where
  "register_user get_password_hash user db =
     except_log_raise ''Error en registro de usuario: ''
       (let lg = [LogInfo (''Intento de registro para el email: '' @ uc_email user)]
        in case get_user_by_email db (Some (uc_email user)) of
             (Inl ex, db1) \<Rightarrow> (Inl ex, db1, lg)
           | (Inr (Some db_user), db1) \<Rightarrow>
               (Inl (HTTPException 400 ''Email ya registrado'' []), db1,
                lg @ [LogWarning (''Intento de registro con email duplicado: '' @ uc_email user)])
           | (Inr None, db1) \<Rightarrow>
               (case get_user_by_username db1 (uc_username user) of
                  (Inl ex, db2) \<Rightarrow> (Inl ex, db2, lg)
                | (Inr (Some db_user_by_username), db2) \<Rightarrow>
                    (Inl (HTTPException 400 ''Nombre de usuario ya registrado'' []), db2,
                     lg @ [LogWarning (''Intento de registro con username duplicado: '' @ uc_username user)])
                | (Inr None, db2) \<Rightarrow>
                    (let hashed = get_password_hash (uc_password user);
                         user_data = \<lparr>d_email = uc_email user, d_username = uc_username user,
                                      d_hashed_password = hashed, d_is_active = True\<rparr>
                     in case create_user db2 user_data of
                          (Inl ex, db3) \<Rightarrow> (Inl ex, db3, lg)
                        | (Inr new_user, db3) \<Rightarrow>
                            (Inr new_user, db3,
                             lg @ [LogInfo (''Usuario registrado exitosamente: '' @ uc_email user)]))))"

definition login ::
  "(string \<Rightarrow> string \<Rightarrow> bool) \<Rightarrow> ((string \<times> string) list \<Rightarrow> int \<Rightarrow> 'tok) \<Rightarrow> Settings \<Rightarrow>
   UserCreate \<Rightarrow> session \<Rightarrow> (exc + 'tok Token) \<times> session \<times> log_entry list" where
  "login verify_password create_access_token cfg user_credentials db =
     except_log_raise ''Error en login: ''
       (let lg = [LogInfo (''Intento de login para el email: '' @ uc_email user_credentials)];
            rejected = (\<lambda>db1.
              (Inl (HTTPException 401 ''Credenciales incorrectas'' [(''WWW-Authenticate'', ''Bearer'')]),
               db1,
               lg @ [LogWarning (''Intento de login fallido para el email: '' @ uc_email user_credentials)]))
        in case get_user_by_email db (Some (uc_email user_credentials)) of
             (Inl ex, db1) \<Rightarrow> (Inl ex, db1, lg)
           | (Inr None, db1) \<Rightarrow> rejected db1
           | (Inr (Some user), db1) \<Rightarrow>
               (if \<not> verify_password (uc_password user_credentials) (hashed_password user)
                then rejected db1
                else
                  (let access_token_expires = timedelta_minutes (ACCESS_TOKEN_EXPIRE_MINUTES cfg);
                       access_token = create_access_token [(''sub'', email user)] access_token_expires
                   in (Inr \<lparr>access_token = access_token, token_type = ''bearer''\<rparr>, db1,
                       lg @ [LogInfo (''Login exitoso para el email: '' @ uc_email user_credentials)]))))"

definition read_users_me :: "UserModel \<Rightarrow> (exc + UserModel) \<times> log_entry list" where
  "read_users_me current_user =
     (Inr current_user, [LogInfo (''Consulta de perfil para el usuario: '' @ email current_user)])"

section \<open>The response model\<close>

text \<open>
  \<^verbatim>\<open>response_model=UserResponse\<close> on \<^verbatim>\<open>/register\<close> and \<^verbatim>\<open>/users/me\<close>: a returned
  \<^verbatim>\<open>UserModel\<close> is answered through the schema, which reads the attributes it names
  (\<^verbatim>\<open>from_attributes = True\<close>). An exception is not a return value and does not go
  through the schema.
\<close>

definition from_attributes :: "UserModel \<Rightarrow> UserResponse" where
  "from_attributes u =
     \<lparr>r_email = email u, r_username = username u, r_id = ident u, r_is_active = is_active u\<rparr>"

section \<open>The Token Service of the specification\<close>

text \<open>
  Modelled from the spec: \<^verbatim>\<open>security.py\<close>, which holds \<^verbatim>\<open>create_access_token\<close> and
  \<^verbatim>\<open>decode_token\<close>, is missing from the sources. The specification (section 4.2) has
  \<open>issue\<close> build the claim set \<open>{sub, iat: now, exp: now + ttl}\<close> and sign it with
  the secret under a fixed symmetric algorithm, and \<open>decode\<close> parse the token, verify
  the signature and verify \<open>exp > now\<close>, failing with the one outcome \<open>InvalidToken\<close>
  otherwise. A token is kept in its three segments; \<open>Garbage\<close> is a string that does
  not parse into them. The keyed signature \<open>sign\<close> and the clock \<open>now\<close> (epoch
  seconds) are parameters.
\<close>

datatype token = Garbage string | Signed string claims string

definition InvalidToken :: exc where
  "InvalidToken = Raised ''InvalidToken''"

text \<open>
  Modelled from the spec: \<open>issue(subject, ttl)\<close> of section 4.2, the
  \<^verbatim>\<open>create_access_token\<close> of the missing \<^verbatim>\<open>security.py\<close>.
\<close>

definition issue ::
  "(string \<Rightarrow> string \<Rightarrow> claims \<Rightarrow> string) \<Rightarrow> Settings \<Rightarrow> int \<Rightarrow> string \<Rightarrow> int \<Rightarrow> token" where
  "issue sign cfg now subject ttl =
     (let c = \<lparr>sub = Some subject, iat = now, exp = now + ttl\<rparr>
      in Signed (ALGORITHM cfg) c (sign (SECRET_KEY cfg) (ALGORITHM cfg) c))"

text \<open>
  Modelled from the spec: \<open>decode(token)\<close> of section 4.2, the \<^verbatim>\<open>decode_token\<close> of
  the missing \<^verbatim>\<open>security.py\<close>. The three failures are one outcome.
\<close>

fun decode ::
  "(string \<Rightarrow> string \<Rightarrow> claims \<Rightarrow> string) \<Rightarrow> Settings \<Rightarrow> int \<Rightarrow> token \<Rightarrow> exc + claims" where
  "decode sign cfg now (Garbage s) = Inl InvalidToken"
| "decode sign cfg now (Signed alg c sg) =
     (if alg \<noteq> ALGORITHM cfg then Inl InvalidToken
      else if sg \<noteq> sign (SECRET_KEY cfg) alg c then Inl InvalidToken
      else if \<not> exp c > now then Inl InvalidToken
      else Inr c)"

text \<open>The \<^verbatim>\<open>user_data\<close> dict that \<open>register_user\<close> builds.\<close>

definition new_user_data :: "(string \<Rightarrow> string) \<Rightarrow> UserCreate \<Rightarrow> user_data" where
  "new_user_data h user =
     \<lparr>d_email = uc_email user, d_username = uc_username user,
      d_hashed_password = h (uc_password user), d_is_active = True\<rparr>"

section \<open>Example data\<close>

text \<open>
  A hasher, a keyed signature and the stores on which the flows are evaluated. The
  hasher and the signature are stand-ins that only have to be functions.
\<close>

definition demo_hash :: "string \<Rightarrow> string" where
  "demo_hash p = ''$demo$'' @ rev p"

definition demo_verify :: "string \<Rightarrow> string \<Rightarrow> bool" where
  "demo_verify p h = (h = demo_hash p)"

definition demo_sign :: "string \<Rightarrow> string \<Rightarrow> claims \<Rightarrow> string" where
  "demo_sign key alg c = alg @ ''|'' @ (case sub c of None \<Rightarrow> [] | Some s \<Rightarrow> s) @ ''|'' @ key"

definition alice :: UserModel where
  "alice = \<lparr>ident = 1, email = ''a@x.com'', username = ''alice'',
            hashed_password = demo_hash ''pw1'', is_active = True\<rparr>"

definition store_alice :: session where
  "store_alice = \<lparr>table = [alice], staged = [], faults = (\<lambda>n. None), trips = 0, closed = False\<rparr>"

text \<open>
  Three stores with one failing round trip each. In a registration the round trips
  are, in order: the lookup by email (0), the lookup by username (1), the commit (2)
  and the refresh (3). In a login the only round trip is the lookup by email (0).
\<close>

definition store_down :: session where
  "store_down =
     \<lparr>table = [alice], staged = [],
      faults = (\<lambda>n. if n = 0 then Some (OperationalFault ''unable to open database file'')
                     else None),
      trips = 0, closed = False\<rparr>"


definition store_refresh_lost :: session where
  "store_refresh_lost =
     \<lparr>table = [alice], staged = [],
      faults = (\<lambda>n. if n = 3 then Some (OperationalFault ''server closed the connection'')
                     else None),
      trips = 0, closed = False\<rparr>"

definition bob :: UserCreate where
  "bob = \<lparr>uc_email = ''b@x.com'', uc_username = ''bob'', uc_password = ''pw2''\<rparr>"

section \<open>Facts about the store\<close>

lemma query_first_ok:
  "faults db (trips db) = None \<Longrightarrow>
   query_first st db = (Inr (find (selects st) (table db)), db\<lparr>trips := Suc (trips db)\<rparr>)"
  by (simp add: query_first_def round_trip_def)

lemma query_first_fault:
  "faults db (trips db) = Some f \<Longrightarrow>
   query_first st db = (Inl (statement_error f st), db\<lparr>trips := Suc (trips db)\<rparr>)"
  by (simp add: query_first_def round_trip_def)

lemma selects_email: "selects (SelectUserByEmail e) = (\<lambda>u. Some (email u) = e)"
  by (rule ext) simp

lemma selects_username: "selects (SelectUserByUsername n) = (\<lambda>u. username u = n)"
  by (rule ext) simp

lemma selects_id: "selects (SelectUserById i) = (\<lambda>u. ident u = i)"
  by (rule ext) simp

lemma get_user_by_email_ok:
  "faults db (trips db) = None \<Longrightarrow>
   get_user_by_email db e =
     (Inr (find (\<lambda>u. Some (email u) = e) (table db)), db\<lparr>trips := Suc (trips db)\<rparr>)"
  by (simp add: get_user_by_email_def query_first_ok selects_email)

lemma get_user_by_email_fault:
  "faults db (trips db) = Some f \<Longrightarrow>
   get_user_by_email db e =
     (Inl (HTTPException 500
             (''Error al consultar la base de datos: '' @
              str_sql (statement_error f (SelectUserByEmail e))) []),
      db\<lparr>trips := Suc (trips db)\<rparr>)"
  by (simp add: get_user_by_email_def query_first_fault)

lemma get_user_by_username_ok:
  "faults db (trips db) = None \<Longrightarrow>
   get_user_by_username db n =
     (Inr (find (\<lambda>u. username u = n) (table db)), db\<lparr>trips := Suc (trips db)\<rparr>)"
  by (simp add: get_user_by_username_def query_first_ok selects_username)

lemma get_user_by_username_fault:
  "faults db (trips db) = Some f \<Longrightarrow>
   get_user_by_username db n =
     (Inl (HTTPException 500
             (''Error al consultar la base de datos: '' @
              str_sql (statement_error f (SelectUserByUsername n))) []),
      db\<lparr>trips := Suc (trips db)\<rparr>)"
  by (simp add: get_user_by_username_def query_first_fault)

text \<open>The id the store assigns is larger than every id of the table.\<close>

lemma fold_max_ge: "a \<le> fold (\<lambda>u m. max m (ident u + 1)) rows (a::int)"
proof (induction rows arbitrary: a)
  case Nil
  show ?case by simp
next
  case (Cons r rows)
  have "a \<le> max a (ident r + 1)" by simp
  also have "\<dots> \<le> fold (\<lambda>u m. max m (ident u + 1)) rows (max a (ident r + 1))"
    by (rule Cons.IH)
  finally show ?case by simp
qed

lemma fold_max_gt:
  "u \<in> set rows \<Longrightarrow> ident u < fold (\<lambda>u m. max m (ident u + 1)) rows (a::int)"
proof (induction rows arbitrary: a)
  case Nil
  then show ?case by simp
next
  case (Cons r rows)
  show ?case
  proof (cases "u = r")
    case True
    have "ident r < max a (ident r + 1)" by simp
    also have "\<dots> \<le> fold (\<lambda>u m. max m (ident u + 1)) rows (max a (ident r + 1))"
      by (rule fold_max_ge)
    finally show ?thesis using True by simp
  next
    case False
    with Cons.prems have "u \<in> set rows" by simp
    then show ?thesis using Cons.IH by simp
  qed
qed

lemma next_id_fresh: "u \<in> set rows \<Longrightarrow> ident u < next_id rows"
  unfolding next_id_def by (rule fold_max_gt)

lemma find_append_split:
  "find P (xs @ ys) = (case find P xs of None \<Rightarrow> find P ys | Some x \<Rightarrow> Some x)"
  by (induction xs) simp_all

lemma find_new_row:
  assumes "ident r = next_id rows"
  shows "find (\<lambda>u. ident u = next_id rows) (rows @ [r]) = Some r"
proof -
  have "find (\<lambda>u. ident u = next_id rows) rows = None"
    using next_id_fresh [of _ rows] by (fastforce simp: find_None_iff)
  then show ?thesis using assms by (simp add: find_append_split)
qed

lemma commit_add_ok:
  assumes "staged db = []" and "faults db (trips db) = None"
  shows "commit (add d db) =
           (Inr [next_id (table db)],
            db\<lparr>trips := Suc (trips db),
               table := table db @ [UserModel_row (next_id (table db)) d], staged := []\<rparr>)"
  using assms by (simp add: commit_def add_def round_trip_def UserModel_row_def)

lemma commit_add_fault:
  assumes "faults db (trips db) = Some f"
  shows "commit (add d db) =
           (Inl (statement_error f (InsertUsers (staged db @ [d]))),
            db\<lparr>trips := Suc (trips db), staged := staged db @ [d]\<rparr>)"
  using assms by (simp add: commit_def add_def round_trip_def)

text \<open>The three ways \<open>create_user\<close> can go.\<close>

lemma create_user_commit_fault:
  assumes "faults db (trips db) = Some f"
  shows "create_user db d =
           (Inl (HTTPException 500
                   (''Error al crear el usuario: '' @
                    str_sql (statement_error f (InsertUsers (staged db @ [d])))) []),
            db\<lparr>trips := Suc (trips db), staged := []\<rparr>)"
  using assms by (simp add: create_user_def commit_add_fault create_failed_def rollback_def)

lemma create_user_refresh_fault:
  assumes "staged db = []" and "faults db (trips db) = None"
    and "faults db (Suc (trips db)) = Some f"
  shows "create_user db d =
           (Inl (HTTPException 500
                   (''Error al crear el usuario: '' @
                    str_sql (statement_error f (SelectUserById (next_id (table db))))) []),
            db\<lparr>trips := Suc (Suc (trips db)),
               table := table db @ [UserModel_row (next_id (table db)) d], staged := []\<rparr>)"
  using assms
  by (simp add: create_user_def commit_add_ok create_failed_def rollback_def refresh_def
      query_first_fault)

lemma create_user_ok:
  assumes "staged db = []" and "faults db (trips db) = None"
    and "faults db (Suc (trips db)) = None"
  shows "create_user db d =
           (Inr (UserModel_row (next_id (table db)) d),
            db\<lparr>trips := Suc (Suc (trips db)),
               table := table db @ [UserModel_row (next_id (table db)) d], staged := []\<rparr>)"
proof -
  have "find (\<lambda>u. ident u = next_id (table db))
          (table db @ [UserModel_row (next_id (table db)) d])
        = Some (UserModel_row (next_id (table db)) d)"
    by (rule find_new_row) (simp add: UserModel_row_def)
  then show ?thesis
    using assms
    by (simp add: create_user_def commit_add_ok refresh_def query_first_ok selects_id)
qed

section \<open>The paths of a registration\<close>

text \<open>Each path of \<open>register_user\<close> as an equation.\<close>

lemma find_email_None:
  "(\<forall>u \<in> set rows. email u \<noteq> e) \<Longrightarrow> find (\<lambda>u. Some (email u) = Some e) rows = None"
  by (simp add: find_None_iff)

lemma find_email_Some:
  "\<exists>u \<in> set rows. email u = e \<Longrightarrow> \<exists>x. find (\<lambda>u. Some (email u) = Some e) rows = Some x"
  by (cases "find (\<lambda>u. Some (email u) = Some e) rows") (auto simp: find_None_iff)


lemma find_username_Some:
  "\<exists>u \<in> set rows. username u = n \<Longrightarrow> \<exists>x. find (\<lambda>u. username u = n) rows = Some x"
  by (cases "find (\<lambda>u. username u = n) rows") (auto simp: find_None_iff)

lemma register_user_email_lookup_fault:
  assumes "faults db (trips db) = Some f"
  shows "fst (register_user h user db) =
           Inl (HTTPException 500
                  (''Error al consultar la base de datos: '' @
                   str_sql (statement_error f (SelectUserByEmail (Some (uc_email user))))) [])"
  using assms
  by (simp add: register_user_def get_user_by_email_fault except_log_raise_def Let_def)

lemma register_user_email_taken:
  assumes "faults db (trips db) = None"
    and "find (\<lambda>u. Some (email u) = Some (uc_email user)) (table db) = Some x"
  shows "register_user h user db =
           (Inl (HTTPException 400 ''Email ya registrado'' []),
            db\<lparr>trips := Suc (trips db)\<rparr>,
            [LogInfo (''Intento de registro para el email: '' @ uc_email user),
             LogWarning (''Intento de registro con email duplicado: '' @ uc_email user),
             LogError ''Error en registro de usuario: ''
               (HTTPException 400 ''Email ya registrado'' [])])"
  using assms
  by (simp add: register_user_def get_user_by_email_ok except_log_raise_def Let_def)

lemma register_user_username_lookup_fault:
  assumes "faults db (trips db) = None"
    and "find (\<lambda>u. Some (email u) = Some (uc_email user)) (table db) = None"
    and "faults db (Suc (trips db)) = Some f"
  shows "fst (register_user h user db) =
           Inl (HTTPException 500
                  (''Error al consultar la base de datos: '' @
                   str_sql (statement_error f (SelectUserByUsername (uc_username user)))) [])"
  using assms
  by (simp add: register_user_def get_user_by_email_ok get_user_by_username_fault
      except_log_raise_def Let_def)

lemma register_user_username_taken:
  assumes "faults db (trips db) = None"
    and "find (\<lambda>u. Some (email u) = Some (uc_email user)) (table db) = None"
    and "faults db (Suc (trips db)) = None"
    and "find (\<lambda>u. username u = uc_username user) (table db) = Some x"
  shows "register_user h user db =
           (Inl (HTTPException 400 ''Nombre de usuario ya registrado'' []),
            db\<lparr>trips := Suc (Suc (trips db))\<rparr>,
            [LogInfo (''Intento de registro para el email: '' @ uc_email user),
             LogWarning (''Intento de registro con username duplicado: '' @ uc_username user),
             LogError ''Error en registro de usuario: ''
               (HTTPException 400 ''Nombre de usuario ya registrado'' [])])"
  using assms
  by (simp add: register_user_def get_user_by_email_ok get_user_by_username_ok
      except_log_raise_def Let_def)

lemma register_user_checks_pass:
  assumes "faults db (trips db) = None"
    and "find (\<lambda>u. Some (email u) = Some (uc_email user)) (table db) = None"
    and "faults db (Suc (trips db)) = None"
    and "find (\<lambda>u. username u = uc_username user) (table db) = None"
  shows "register_user h user db =
           except_log_raise ''Error en registro de usuario: ''
             (case create_user (db\<lparr>trips := Suc (Suc (trips db))\<rparr>) (new_user_data h user) of
                (Inl ex, db3) \<Rightarrow>
                  (Inl ex, db3, [LogInfo (''Intento de registro para el email: '' @ uc_email user)])
              | (Inr new_user, db3) \<Rightarrow>
                  (Inr new_user, db3,
                   [LogInfo (''Intento de registro para el email: '' @ uc_email user),
                    LogInfo (''Usuario registrado exitosamente: '' @ uc_email user)]))"
  using assms
  by (simp add: register_user_def get_user_by_email_ok get_user_by_username_ok Let_def
      new_user_data_def split: prod.splits sum.splits)

lemma register_user_commit_fault:
  assumes "faults db (trips db) = None"
    and "find (\<lambda>u. Some (email u) = Some (uc_email user)) (table db) = None"
    and "faults db (Suc (trips db)) = None"
    and "find (\<lambda>u. username u = uc_username user) (table db) = None"
    and "faults db (Suc (Suc (trips db))) = Some f"
  shows "register_user h user db =
           (Inl (HTTPException 500
                   (''Error al crear el usuario: '' @
                    str_sql (statement_error f
                               (InsertUsers (staged db @ [new_user_data h user])))) []),
            db\<lparr>trips := Suc (Suc (Suc (trips db))), staged := []\<rparr>,
            [LogInfo (''Intento de registro para el email: '' @ uc_email user),
             LogError ''Error en registro de usuario: ''
               (HTTPException 500
                  (''Error al crear el usuario: '' @
                   str_sql (statement_error f
                              (InsertUsers (staged db @ [new_user_data h user])))) [])])"
  using assms
  by (simp add: register_user_checks_pass create_user_commit_fault except_log_raise_def)

lemma register_user_refresh_fault:
  assumes "staged db = []" and "faults db (trips db) = None"
    and "find (\<lambda>u. Some (email u) = Some (uc_email user)) (table db) = None"
    and "faults db (Suc (trips db)) = None"
    and "find (\<lambda>u. username u = uc_username user) (table db) = None"
    and "faults db (Suc (Suc (trips db))) = None"
    and "faults db (Suc (Suc (Suc (trips db)))) = Some f"
  shows "register_user h user db =
           (Inl (HTTPException 500
                   (''Error al crear el usuario: '' @
                    str_sql (statement_error f (SelectUserById (next_id (table db))))) []),
            db\<lparr>trips := Suc (Suc (Suc (Suc (trips db)))),
               table := table db @ [UserModel_row (next_id (table db)) (new_user_data h user)],
               staged := []\<rparr>,
            [LogInfo (''Intento de registro para el email: '' @ uc_email user),
             LogError ''Error en registro de usuario: ''
               (HTTPException 500
                  (''Error al crear el usuario: '' @
                   str_sql (statement_error f (SelectUserById (next_id (table db))))) [])])"
  using assms
  by (simp add: register_user_checks_pass create_user_refresh_fault except_log_raise_def)

lemma register_user_created:
  assumes "staged db = []" and "faults db (trips db) = None"
    and "find (\<lambda>u. Some (email u) = Some (uc_email user)) (table db) = None"
    and "faults db (Suc (trips db)) = None"
    and "find (\<lambda>u. username u = uc_username user) (table db) = None"
    and "faults db (Suc (Suc (trips db))) = None"
    and "faults db (Suc (Suc (Suc (trips db)))) = None"
  shows "register_user h user db =
           (Inr (UserModel_row (next_id (table db)) (new_user_data h user)),
            db\<lparr>trips := Suc (Suc (Suc (Suc (trips db)))),
               table := table db @ [UserModel_row (next_id (table db)) (new_user_data h user)],
               staged := []\<rparr>,
            [LogInfo (''Intento de registro para el email: '' @ uc_email user),
             LogInfo (''Usuario registrado exitosamente: '' @ uc_email user)])"
  using assms
  by (simp add: register_user_checks_pass create_user_ok except_log_raise_def)

text \<open>Whatever happens, a registration ends in an error or in a created user; it
  succeeds only on the last path.\<close>

lemma register_user_Inr_path:
  assumes "staged db = []" and "fst (register_user h user db) = Inr u"
  shows "faults db (trips db) = None \<and>
         find (\<lambda>u. Some (email u) = Some (uc_email user)) (table db) = None \<and>
         faults db (Suc (trips db)) = None \<and>
         find (\<lambda>u. username u = uc_username user) (table db) = None \<and>
         faults db (Suc (Suc (trips db))) = None \<and>
         faults db (Suc (Suc (Suc (trips db)))) = None"
proof -
  have f0: "faults db (trips db) = None"
  proof (cases "faults db (trips db)")
    case (Some err)
    from register_user_email_lookup_fault [OF this] assms(2) show ?thesis by simp
  qed simp
  have e: "find (\<lambda>u. Some (email u) = Some (uc_email user)) (table db) = None"
  proof (cases "find (\<lambda>u. Some (email u) = Some (uc_email user)) (table db)")
    case (Some x)
    from register_user_email_taken [OF f0 this] assms(2) show ?thesis by simp
  qed simp
  have f1: "faults db (Suc (trips db)) = None"
  proof (cases "faults db (Suc (trips db))")
    case (Some err)
    from register_user_username_lookup_fault [OF f0 e this] assms(2) show ?thesis by simp
  qed simp
  have n: "find (\<lambda>u. username u = uc_username user) (table db) = None"
  proof (cases "find (\<lambda>u. username u = uc_username user) (table db)")
    case (Some x)
    from register_user_username_taken [OF f0 e f1 this] assms(2) show ?thesis by simp
  qed simp
  have f2: "faults db (Suc (Suc (trips db))) = None"
  proof (cases "faults db (Suc (Suc (trips db)))")
    case (Some err)
    from register_user_commit_fault [OF f0 e f1 n this] assms(2) show ?thesis by simp
  qed simp
  have f3: "faults db (Suc (Suc (Suc (trips db)))) = None"
  proof (cases "faults db (Suc (Suc (Suc (trips db))))")
    case (Some err)
    from register_user_refresh_fault [OF assms(1) f0 e f1 n f2 this] assms(2) show ?thesis by simp
  qed simp
  from f0 e f1 n f2 f3 show ?thesis by simp
qed

section \<open>Registration\<close>

text \<open>
  Claim C3. When the lookup by email reaches the store and finds a user with the
  request's email, the registration is rejected with the 400 \<^verbatim>\<open>Email ya registrado\<close>,
  whatever the username; when no user has the email, the lookup by username reaches the
  store and finds a user with the request's username, it is rejected with the 400
  \<^verbatim>\<open>Nombre de usuario ya registrado\<close>. Both rejections leave the table and the open
  transaction as they were: no user is created.
\<close>

theorem register_duplicate_rejections:
  assumes up: "faults db (trips db) = None"
  shows "((\<exists>u \<in> set (table db). email u = uc_email user) \<longrightarrow>
            fst (register_user h user db) = Inl (HTTPException 400 ''Email ya registrado'' []) \<and>
            table (fst (snd (register_user h user db))) = table db \<and>
            staged (fst (snd (register_user h user db))) = staged db) \<and>
         ((\<forall>u \<in> set (table db). email u \<noteq> uc_email user) \<and>
          faults db (Suc (trips db)) = None \<and>
          (\<exists>u \<in> set (table db). username u = uc_username user) \<longrightarrow>
            fst (register_user h user db) =
              Inl (HTTPException 400 ''Nombre de usuario ya registrado'' []) \<and>
            table (fst (snd (register_user h user db))) = table db \<and>
            staged (fst (snd (register_user h user db))) = staged db)"
proof (intro conjI impI)
  assume "\<exists>u \<in> set (table db). email u = uc_email user"
  then obtain x where "find (\<lambda>u. Some (email u) = Some (uc_email user)) (table db) = Some x"
    using find_email_Some by blast
  note eq = register_user_email_taken [OF up this, of h]
  show "fst (register_user h user db) = Inl (HTTPException 400 ''Email ya registrado'' [])"
    and "table (fst (snd (register_user h user db))) = table db"
    and "staged (fst (snd (register_user h user db))) = staged db"
    by (simp_all add: eq)
next
  assume a: "(\<forall>u \<in> set (table db). email u \<noteq> uc_email user) \<and>
          faults db (Suc (trips db)) = None \<and>
          (\<exists>u \<in> set (table db). username u = uc_username user)"
  then have e: "find (\<lambda>u. Some (email u) = Some (uc_email user)) (table db) = None"
    using find_email_None by blast
  from a obtain x where "find (\<lambda>u. username u = uc_username user) (table db) = Some x"
    using find_username_Some by blast
  note eq = register_user_username_taken [OF up e _ this, of h]
  from a have f1: "faults db (Suc (trips db)) = None" by simp
  show "fst (register_user h user db) =
          Inl (HTTPException 400 ''Nombre de usuario ya registrado'' [])"
    and "table (fst (snd (register_user h user db))) = table db"
    and "staged (fst (snd (register_user h user db))) = staged db"
    by (simp_all add: eq [OF f1])
qed

theorem register_duplicate_rejections_witness:
  "fst (register_user demo_hash
          \<lparr>uc_email = ''a@x.com'', uc_username = ''alice'', uc_password = ''pw2''\<rparr> store_alice) =
     Inl (HTTPException 400 ''Email ya registrado'' []) \<and>
   fst (register_user demo_hash
          \<lparr>uc_email = ''c@x.com'', uc_username = ''alice'', uc_password = ''pw3''\<rparr> store_alice) =
     Inl (HTTPException 400 ''Nombre de usuario ya registrado'' []) \<and>
   table (fst (snd (register_user demo_hash
          \<lparr>uc_email = ''c@x.com'', uc_username = ''alice'', uc_password = ''pw3''\<rparr> store_alice))) =
     [alice]"
proof -
  let ?both = "\<lparr>uc_email = ''a@x.com'', uc_username = ''alice'', uc_password = ''pw2''\<rparr>"
  let ?name = "\<lparr>uc_email = ''c@x.com'', uc_username = ''alice'', uc_password = ''pw3''\<rparr>"
  have up: "faults store_alice (trips store_alice) = None"
    by (simp add: store_alice_def)
  have up1: "faults store_alice (Suc (trips store_alice)) = None"
    by (simp add: store_alice_def)
  have tbl: "table store_alice = [alice]"
    by (simp add: store_alice_def)
  have email_taken: "\<exists>u \<in> set (table store_alice). email u = uc_email ?both"
    by (simp add: tbl alice_def)
  have email_free: "\<forall>u \<in> set (table store_alice). email u \<noteq> uc_email ?name"
    by (simp add: tbl alice_def)
  have name_taken: "\<exists>u \<in> set (table store_alice). username u = uc_username ?name"
    by (simp add: tbl alice_def)
  from register_duplicate_rejections [OF up, where user = ?both and h = demo_hash] email_taken
  have one: "fst (register_user demo_hash ?both store_alice) =
               Inl (HTTPException 400 ''Email ya registrado'' [])"
    by blast
  from register_duplicate_rejections [OF up, where user = ?name and h = demo_hash]
       email_free up1 name_taken
  have two: "fst (register_user demo_hash ?name store_alice) =
               Inl (HTTPException 400 ''Nombre de usuario ya registrado'' []) \<and>
             table (fst (snd (register_user demo_hash ?name store_alice))) = table store_alice"
    by blast
  from one two tbl show ?thesis by simp
qed

text \<open>
  Claim C4, at an input where the code departs from it. \<open>create_user\<close> keeps
  \<^verbatim>\<open>db.refresh\<close> in the \<^verbatim>\<open>try\<close> of \<^verbatim>\<open>db.commit\<close>. When the commit has succeeded
  and reading the new row back raises, the handler rolls back, which undoes nothing any
  more, and raises the 500 \<^verbatim>\<open>Error al crear el usuario\<close>: the registration reports a
  failed creation and the table holds the new user. When it is the commit that raises,
  the same handler leaves the table as it was (\<open>register_user_commit_fault\<close>).
\<close>

theorem register_error_after_commit:
  "fst (register_user demo_hash bob store_refresh_lost) =
     Inl (HTTPException 500
            (''Error al crear el usuario: '' @
             str_sql (OperationalError ''server closed the connection'' (SelectUserById 2))) []) \<and>
   table (fst (snd (register_user demo_hash bob store_refresh_lost))) =
     [alice,
      \<lparr>ident = 2, email = ''b@x.com'', username = ''bob'',
       hashed_password = demo_hash ''pw2'', is_active = True\<rparr>] \<and>
   table (fst (snd (register_user demo_hash bob store_refresh_lost))) \<noteq> table store_refresh_lost"
proof -
  have eq: "register_user demo_hash bob store_refresh_lost =
     (Inl (HTTPException 500
             (''Error al crear el usuario: '' @
              str_sql (statement_error (OperationalFault ''server closed the connection'')
                         (SelectUserById (next_id (table store_refresh_lost))))) []),
      store_refresh_lost\<lparr>trips := Suc (Suc (Suc (Suc (trips store_refresh_lost)))),
         table := table store_refresh_lost @
           [UserModel_row (next_id (table store_refresh_lost)) (new_user_data demo_hash bob)],
         staged := []\<rparr>,
      [LogInfo (''Intento de registro para el email: '' @ uc_email bob),
       LogError ''Error en registro de usuario: ''
         (HTTPException 500
            (''Error al crear el usuario: '' @
             str_sql (statement_error (OperationalFault ''server closed the connection'')
                        (SelectUserById (next_id (table store_refresh_lost))))) [])])"
    by (rule register_user_refresh_fault)
       (simp_all add: store_refresh_lost_def bob_def alice_def)
  have nid: "next_id (table store_refresh_lost) = 2"
    by (simp add: store_refresh_lost_def next_id_def alice_def)
  show ?thesis
    unfolding eq nid
    by (simp add: store_refresh_lost_def UserModel_row_def new_user_data_def
        alice_def bob_def)
qed




text \<open>
  Claim C8. A registration that succeeds on a session with nothing staged returns the
  new row and appends exactly that row to the table: its password column is
  \<open>get_password_hash\<close> of the request's password and its active flag is true. The
  log lines of the call carry the email only.
\<close>

theorem register_persists_hash:
  assumes clean: "staged db = []"
    and created: "fst (register_user h user db) = Inr u"
  shows "u = \<lparr>ident = next_id (table db), email = uc_email user, username = uc_username user,
              hashed_password = h (uc_password user), is_active = True\<rparr> \<and>
         table (fst (snd (register_user h user db))) = table db @ [u] \<and>
         snd (snd (register_user h user db)) =
           [LogInfo (''Intento de registro para el email: '' @ uc_email user),
            LogInfo (''Usuario registrado exitosamente: '' @ uc_email user)]"
proof -
  from register_user_Inr_path [OF clean created]
  have eq: "register_user h user db =
           (Inr (UserModel_row (next_id (table db)) (new_user_data h user)),
            db\<lparr>trips := Suc (Suc (Suc (Suc (trips db)))),
               table := table db @ [UserModel_row (next_id (table db)) (new_user_data h user)],
               staged := []\<rparr>,
            [LogInfo (''Intento de registro para el email: '' @ uc_email user),
             LogInfo (''Usuario registrado exitosamente: '' @ uc_email user)])"
    using register_user_created [OF clean, of user h] by blast
  from created have "u = UserModel_row (next_id (table db)) (new_user_data h user)"
    by (simp add: eq)
  then show ?thesis
    by (simp add: eq UserModel_row_def new_user_data_def)
qed

theorem register_persists_hash_witness:
  "table (fst (snd (register_user demo_hash bob store_alice))) =
     [alice,
      \<lparr>ident = 2, email = ''b@x.com'', username = ''bob'',
       hashed_password = ''$demo$2wp'', is_active = True\<rparr>] \<and>
   snd (snd (register_user demo_hash bob store_alice)) =
     [LogInfo ''Intento de registro para el email: b@x.com'',
      LogInfo ''Usuario registrado exitosamente: b@x.com'']"
proof -
  let ?u = "\<lparr>ident = 2, email = ''b@x.com'', username = ''bob'',
             hashed_password = ''$demo$2wp'', is_active = True\<rparr>"
  have clean: "staged store_alice = []"
    by (simp add: store_alice_def)
  have eq: "register_user demo_hash bob store_alice =
           (Inr (UserModel_row (next_id (table store_alice)) (new_user_data demo_hash bob)),
            store_alice\<lparr>trips := Suc (Suc (Suc (Suc (trips store_alice)))),
               table := table store_alice @
                 [UserModel_row (next_id (table store_alice)) (new_user_data demo_hash bob)],
               staged := []\<rparr>,
            [LogInfo (''Intento de registro para el email: '' @ uc_email bob),
             LogInfo (''Usuario registrado exitosamente: '' @ uc_email bob)])"
    by (rule register_user_created) (simp_all add: store_alice_def alice_def bob_def)
  have created: "fst (register_user demo_hash bob store_alice) = Inr ?u"
    unfolding eq
    by (simp add: UserModel_row_def new_user_data_def next_id_def store_alice_def alice_def
        bob_def demo_hash_def)
  from register_persists_hash [OF clean created]
  show ?thesis
    by (simp add: store_alice_def bob_def)
qed

text \<open>
  The answer to a successful registration, through \<^verbatim>\<open>response_model=UserResponse\<close>:
  the email and username of the request, the id the store assigned and the active
  flag.
\<close>

lemma register_success_response:
  assumes "staged db = []" and "fst (register_user h user db) = Inr u"
  shows "from_attributes u =
           \<lparr>r_email = uc_email user, r_username = uc_username user,
            r_id = next_id (table db), r_is_active = True\<rparr>"
proof -
  from register_user_Inr_path [OF assms]
  have "register_user h user db =
           (Inr (UserModel_row (next_id (table db)) (new_user_data h user)),
            db\<lparr>trips := Suc (Suc (Suc (Suc (trips db)))),
               table := table db @ [UserModel_row (next_id (table db)) (new_user_data h user)],
               staged := []\<rparr>,
            [LogInfo (''Intento de registro para el email: '' @ uc_email user),
             LogInfo (''Usuario registrado exitosamente: '' @ uc_email user)])"
    using register_user_created [OF assms(1), of user h] by blast
  with assms(2) have "u = UserModel_row (next_id (table db)) (new_user_data h user)"
    by simp
  then show ?thesis
    by (simp add: from_attributes_def UserModel_row_def new_user_data_def)
qed


section \<open>Resolving the current user\<close>

text \<open>
  What \<open>get_current_user\<close> does on each path. When \<open>decode_token\<close> raises, its
  exception is raised again unchanged and the store is not touched. When the token
  decodes and the lookup reaches the store, the user with the email of the \<^verbatim>\<open>sub\<close>
  claim is returned, and when there is none the exception is the 401 with detail
  \<^verbatim>\<open>Usuario no encontrado\<close>. Whether a failed decode and a missing user look the
  same to the caller is therefore decided by the exception of \<open>decode_token\<close>, which
  is in the missing \<^verbatim>\<open>security.py\<close>.
\<close>

lemma get_current_user_paths:
  "(decode_token token = Inl ex \<longrightarrow>
      fst (get_current_user decode_token token db) = Inl ex \<and>
      fst (snd (get_current_user decode_token token db)) = db) \<and>
   (decode_token token = Inr payload \<and> faults db (trips db) = None \<and>
    (\<forall>u \<in> set (table db). Some (email u) \<noteq> sub payload) \<longrightarrow>
      fst (get_current_user decode_token token db) =
        Inl (HTTPException 401 ''Usuario no encontrado'' [])) \<and>
   (decode_token token = Inr payload \<and> faults db (trips db) = None \<and>
    find (\<lambda>u. Some (email u) = sub payload) (table db) = Some u \<longrightarrow>
      fst (get_current_user decode_token token db) = Inr u)"
proof -
  have "find (\<lambda>u. Some (email u) = sub payload) (table db) = None"
    if "\<forall>u \<in> set (table db). Some (email u) \<noteq> sub payload"
    using that by (simp add: find_None_iff)
  then show ?thesis
    by (simp add: get_current_user_def except_log_raise_def get_user_by_email_ok)
qed

section \<open>Login\<close>

text \<open>
  Claim C1. Take a login with an email that no stored user has and a login with a
  stored user's email and a password that \<open>verify_password\<close> rejects, both on the
  same database state. When the lookup reaches the store, the two calls give the caller
  the same outcome: the 401 with detail \<^verbatim>\<open>Credenciales incorrectas\<close> and the
  \<^verbatim>\<open>WWW-Authenticate\<close> header. When the lookup itself fails, each call gives the 500
  of the failed query, whose text is made of the driver's message and the email that
  the caller sent, not of what is stored.
\<close>

theorem login_rejections_identical:
  assumes absent: "\<forall>u \<in> set (table db). email u \<noteq> uc_email c1"
    and stored: "find (\<lambda>u. email u = uc_email c2) (table db) = Some u2"
    and wrong: "\<not> verify_password (uc_password c2) (hashed_password u2)"
  shows "(faults db (trips db) = None \<longrightarrow>
            fst (login verify_password create_access_token cfg c1 db) =
              fst (login verify_password create_access_token cfg c2 db) \<and>
            fst (login verify_password create_access_token cfg c1 db) =
              Inl (HTTPException 401 ''Credenciales incorrectas'' [(''WWW-Authenticate'', ''Bearer'')])) \<and>
         (faults db (trips db) = Some f \<longrightarrow>
            fst (login verify_password create_access_token cfg c1 db) =
              Inl (HTTPException 500
                     (''Error al consultar la base de datos: '' @
                      str_sql (statement_error f (SelectUserByEmail (Some (uc_email c1))))) []) \<and>
            fst (login verify_password create_access_token cfg c2 db) =
              Inl (HTTPException 500
                     (''Error al consultar la base de datos: '' @
                      str_sql (statement_error f (SelectUserByEmail (Some (uc_email c2))))) []))"
proof -
  have none: "find (\<lambda>u. Some (email u) = Some (uc_email c1)) (table db) = None"
    using absent by (simp add: find_None_iff)
  have some: "find (\<lambda>u. Some (email u) = Some (uc_email c2)) (table db) = Some u2"
    using stored by simp
  show ?thesis
  proof (cases "faults db (trips db)")
    case None
    then show ?thesis
      using none some wrong
      by (simp add: login_def get_user_by_email_ok except_log_raise_def Let_def)
  next
    case (Some g)
    then show ?thesis
      by (simp add: login_def get_user_by_email_fault except_log_raise_def Let_def)
  qed
qed

theorem login_rejections_identical_witness:
  "fst (login demo_verify (\<lambda>d t. (d, t)) settings
          \<lparr>uc_email = ''nobody@x.com'', uc_username = ''n'', uc_password = ''pw1''\<rparr> store_alice) =
   fst (login demo_verify (\<lambda>d t. (d, t)) settings
          \<lparr>uc_email = ''a@x.com'', uc_username = ''alice'', uc_password = ''guess''\<rparr> store_alice) \<and>
   fst (login demo_verify (\<lambda>d t. (d, t)) settings
          \<lparr>uc_email = ''nobody@x.com'', uc_username = ''n'', uc_password = ''pw1''\<rparr> store_alice) =
     Inl (HTTPException 401 ''Credenciales incorrectas'' [(''WWW-Authenticate'', ''Bearer'')]) \<and>
   fst (login demo_verify (\<lambda>d t. (d, t)) settings
          \<lparr>uc_email = ''a@x.com'', uc_username = ''alice'', uc_password = ''guess''\<rparr> store_down) =
     Inl (HTTPException 500
            (''Error al consultar la base de datos: '' @
             str_sql (OperationalError ''unable to open database file''
                        (SelectUserByEmail (Some ''a@x.com'')))) [])"
proof -
  let ?c1 = "\<lparr>uc_email = ''nobody@x.com'', uc_username = ''n'', uc_password = ''pw1''\<rparr>"
  let ?c2 = "\<lparr>uc_email = ''a@x.com'', uc_username = ''alice'', uc_password = ''guess''\<rparr>"
  have absent: "\<forall>u \<in> set (table store_alice). email u \<noteq> uc_email ?c1"
    by (simp add: store_alice_def alice_def)
  have stored: "find (\<lambda>u. email u = uc_email ?c2) (table store_alice) = Some alice"
    by (simp add: store_alice_def alice_def)
  have wrong: "\<not> demo_verify (uc_password ?c2) (hashed_password alice)"
    by (simp add: alice_def demo_verify_def demo_hash_def)
  have up: "faults store_alice (trips store_alice) = None"
    by (simp add: store_alice_def)
  from login_rejections_identical
         [where db = store_alice and ?c1.0 = ?c1 and ?c2.0 = ?c2 and ?u2.0 = alice
            and verify_password = demo_verify
            and create_access_token = "\<lambda>d t. (d, t)" and cfg = settings]
       absent stored wrong up
  have one: "fst (login demo_verify (\<lambda>d t. (d, t)) settings ?c1 store_alice) =
               fst (login demo_verify (\<lambda>d t. (d, t)) settings ?c2 store_alice) \<and>
             fst (login demo_verify (\<lambda>d t. (d, t)) settings ?c1 store_alice) =
               Inl (HTTPException 401 ''Credenciales incorrectas'' [(''WWW-Authenticate'', ''Bearer'')])"
    by blast
  have absent': "\<forall>u \<in> set (table store_down). email u \<noteq> uc_email ?c1"
    by (simp add: store_down_def alice_def)
  have stored': "find (\<lambda>u. email u = uc_email ?c2) (table store_down) = Some alice"
    by (simp add: store_down_def alice_def)
  have down: "faults store_down (trips store_down) =
                Some (OperationalFault ''unable to open database file'')"
    by (simp add: store_down_def)
  from login_rejections_identical
         [where db = store_down and ?c1.0 = ?c1 and ?c2.0 = ?c2 and ?u2.0 = alice
            and verify_password = demo_verify
            and create_access_token = "\<lambda>d t. (d, t)" and cfg = settings
            and f = "OperationalFault ''unable to open database file''"]
       absent' stored' wrong down
  have two: "fst (login demo_verify (\<lambda>d t. (d, t)) settings ?c2 store_down) =
     Inl (HTTPException 500
            (''Error al consultar la base de datos: '' @
             str_sql (OperationalError ''unable to open database file''
                        (SelectUserByEmail (Some ''a@x.com'')))) [])"
    by simp
  from one two show ?thesis by blast
qed

text \<open>
  Claim C6. A login with a stored email and a password that verifies returns a bearer
  token made by \<open>create_access_token\<close> from the data \<^verbatim>\<open>{"sub": user.email}\<close> and the
  lifetime \<^verbatim>\<open>timedelta(minutes=settings.ACCESS_TOKEN_EXPIRE_MINUTES)\<close>; the email is the
  one of the request, and the setting is 30 minutes unless configured otherwise.
\<close>

theorem login_issues_token:
  assumes ok: "faults db (trips db) = None"
    and stored: "find (\<lambda>u. email u = uc_email c) (table db) = Some u"
    and right: "verify_password (uc_password c) (hashed_password u)"
  shows "fst (login verify_password create_access_token cfg c db) =
           Inr \<lparr>access_token =
                  create_access_token [(''sub'', email u)] (60 * ACCESS_TOKEN_EXPIRE_MINUTES cfg),
                token_type = ''bearer''\<rparr> \<and>
         email u = uc_email c \<and>
         ACCESS_TOKEN_EXPIRE_MINUTES settings = 30"
proof -
  have some: "find (\<lambda>u. Some (email u) = Some (uc_email c)) (table db) = Some u"
    using stored by simp
  have "email u = uc_email c"
    using stored by (auto simp: find_Some_iff)
  moreover have "ACCESS_TOKEN_EXPIRE_MINUTES settings = 30"
    by (simp add: settings_def)
  moreover have "fst (login verify_password create_access_token cfg c db) =
           Inr \<lparr>access_token =
                  create_access_token [(''sub'', email u)] (60 * ACCESS_TOKEN_EXPIRE_MINUTES cfg),
                token_type = ''bearer''\<rparr>"
    using ok some right
    by (simp add: login_def get_user_by_email_ok except_log_raise_def Let_def timedelta_minutes_def)
  ultimately show ?thesis by simp
qed

theorem login_issues_token_witness:
  "fst (login demo_verify (\<lambda>d t. (d, t)) settings
          \<lparr>uc_email = ''a@x.com'', uc_username = ''alice'', uc_password = ''pw1''\<rparr> store_alice) =
     Inr \<lparr>access_token = ([(''sub'', ''a@x.com'')], 1800), token_type = ''bearer''\<rparr>"
  using login_issues_token
    [of store_alice "\<lparr>uc_email = ''a@x.com'', uc_username = ''alice'', uc_password = ''pw1''\<rparr>"
        alice demo_verify "\<lambda>d t. (d, t)" settings]
  by (simp add: store_alice_def alice_def demo_verify_def demo_hash_def)

section \<open>The Token Service\<close>

text \<open>
  Claim C7. Decoding a token between its issue and its expiry gives back the claim set
  it was issued with, so the subject round-trips. The two hypotheses say that the
  decoding time \<open>t\<close> is not before the issue and is before the expiry; they can only
  hold for a positive lifetime.
\<close>

theorem decode_issue_roundtrip:
  assumes "now \<le> t" and "t < now + ttl"
  shows "decode sign cfg t (issue sign cfg now subject ttl) =
           Inr \<lparr>sub = Some subject, iat = now, exp = now + ttl\<rparr>"
  using assms by (simp add: issue_def Let_def)

theorem decode_issue_roundtrip_witness:
  "decode demo_sign settings 1000 (issue demo_sign settings 1000 ''a@x.com'' 1800) =
     Inr \<lparr>sub = Some ''a@x.com'', iat = 1000, exp = 2800\<rparr>"
  using decode_issue_roundtrip [of 1000 1000 1800 demo_sign settings "''a@x.com''"]
  by simp

section \<open>The session scope\<close>

text \<open>
  Entered as a context manager, \<open>get_db\<close> hands the body an open session and closes
  it when the body is left, whether the body returned a value or raised; nothing stays
  staged, and the body's result passes through.
\<close>

lemma get_db_closes_session:
  "closed (SessionLocal store) = False \<and>
   closed (fst (snd (get_db body store))) = True \<and>
   staged (fst (snd (get_db body store))) = [] \<and>
   fst (get_db body store) = fst (body (SessionLocal store))"
  by (simp add: get_db_def SessionLocal_def close_def split: prod.splits)

end
